theory Spec2Isabelle
  imports Main
begin

section \<open>Values, objects and the store\<close>

text \<open>
  The library (the TypeScript module listed after the README in \<^verbatim>\<open>src/README.md\<close>)
  is generic in the payload types \<^verbatim>\<open>TSuccess\<close> and \<^verbatim>\<open>TError\<close> and never inspects a payload. The only JavaScript value it produces by
  itself is \<^verbatim>\<open>undefined\<close> (in \<^verbatim>\<open>unwrapTuple\<close>), and a payload may be \<^verbatim>\<open>undefined\<close> as
  well, since \<^verbatim>\<open>undefined | TSuccess\<close> is an untagged union. A value is therefore either
  \<^verbatim>\<open>undefined\<close> or some other value of an opaque type \<open>'a\<close> (a primitive, or a reference
  to an object of the caller: equality on references is identity).
\<close>

datatype 'a jsval = Undefined | Defined 'a

text \<open>
  \<^verbatim>\<open>class Ok { constructor(public readonly value) }\<close> and
  \<^verbatim>\<open>class Err { constructor(public readonly error) }\<close>: an instance carries its class
  and its single field.
\<close>

datatype 'a obj = Ok "'a jsval" | Err "'a jsval"

text \<open>
  An error object with the two properties the library sets. The built-in
  \<^verbatim>\<open>Error(message)\<close> stores the message and has the name \<^verbatim>\<open>"Error"\<close>;
  \<^verbatim>\<open>class ResultError extends Error { name = 'ResultError'; constructor(message) { super(message) } }\<close>
  runs the super constructor and then its field initialiser.
\<close>

record js_error =
  name :: string
  message :: string

definition Error_new :: "string \<Rightarrow> js_error" where
  "Error_new msg = \<lparr>name = ''Error'', message = msg\<rparr>"

definition ResultError :: "string \<Rightarrow> js_error" where
  "ResultError msg = (Error_new msg)\<lparr>name := ''ResultError''\<rparr>"

text \<open>What a \<^verbatim>\<open>throw\<close> carries: an error object, or any value a callback throws.\<close>

datatype 'a thrown = ThrowError js_error | ThrowValue "'a jsval"

text \<open>
  The store. \<open>heap\<close> holds the \<^verbatim>\<open>Ok\<close> and \<^verbatim>\<open>Err\<close> instances, a reference is an index into
  it and \<^verbatim>\<open>new\<close> appends. \<open>world\<close> is the state of the caller, which only the functions
  the caller passes in can read and change. \<open>calls\<close> records every call the library
  makes to such a function: which one, and with which argument.
\<close>

datatype callee = MapFn | OkHandler | ErrHandler

record ('a, 'w) state =
  heap :: "'a obj list"
  world :: 'w
  calls :: "(callee \<times> 'a jsval) list"

text \<open>
  A function of the caller (\<^verbatim>\<open>fn\<close> of \<^verbatim>\<open>map\<close>, the handlers of \<^verbatim>\<open>match\<close>): it returns
  a value or throws, and may change the caller's state.
\<close>

type_synonym ('a, 'w) fn = "'a jsval \<Rightarrow> 'w \<Rightarrow> ('a thrown + 'a jsval) \<times> 'w"

text \<open>The argument of \<^verbatim>\<open>match\<close>: \<^verbatim>\<open>{ ok: (value) => U; err: (error) => U }\<close>.\<close>

record ('a, 'w) options =
  ok_fn :: "('a, 'w) fn"
  err_fn :: "('a, 'w) fn"

definition alloc :: "'a obj \<Rightarrow> ('a, 'w) state \<Rightarrow> nat \<times> ('a, 'w) state" where
  "alloc x s = (length (heap s), s\<lparr>heap := heap s @ [x]\<rparr>)"

definition deref :: "nat \<Rightarrow> ('a, 'w) state \<Rightarrow> 'a obj option" where
  "deref this s = (if this < length (heap s) then Some (heap s ! this) else None)"

text \<open>
  \<^verbatim>\<open>fn(x)\<close>: the call is recorded, the function runs on the caller's state, and its
  outcome (value or throw) is the outcome of the call.
\<close>

definition call :: "callee \<Rightarrow> ('a, 'w) fn \<Rightarrow> 'a jsval \<Rightarrow> ('a, 'w) state
    \<Rightarrow> ('a thrown + 'a jsval) \<times> ('a, 'w) state" where
  "call c fn x s =
     (case fn x (world s) of
        (out, w) \<Rightarrow> (out, s\<lparr>world := w, calls := calls s @ [(c, x)]\<rparr>))"

section \<open>The class \<^verbatim>\<open>BaseResult\<close>\<close>

text \<open>\<^verbatim>\<open>this instanceof Ok\<close> and \<^verbatim>\<open>this instanceof Err\<close>.\<close>

definition isOk :: "nat \<Rightarrow> ('a, 'w) state \<Rightarrow> bool" where
  "isOk this s = (case deref this s of Some (Ok v) \<Rightarrow> True | _ \<Rightarrow> False)"

definition isErr :: "nat \<Rightarrow> ('a, 'w) state \<Rightarrow> bool" where
  "isErr this s = (case deref this s of Some (Err e) \<Rightarrow> True | _ \<Rightarrow> False)"

text \<open>
  \<^verbatim>\<open>this.value\<close> and \<^verbatim>\<open>this.error\<close>: reading a property that the object does not have
  gives \<^verbatim>\<open>undefined\<close>.
\<close>

definition value_field :: "nat \<Rightarrow> ('a, 'w) state \<Rightarrow> 'a jsval" where
  "value_field this s = (case deref this s of Some (Ok v) \<Rightarrow> v | _ \<Rightarrow> Undefined)"

definition error_field :: "nat \<Rightarrow> ('a, 'w) state \<Rightarrow> 'a jsval" where
  "error_field this s = (case deref this s of Some (Err e) \<Rightarrow> e | _ \<Rightarrow> Undefined)"

text \<open>
  \<^verbatim>\<open>match(options) { if (this.isOk()) return options.ok(this.value);
  return options.err(this.error); }\<close>
\<close>

definition match_result :: "('a, 'w) options \<Rightarrow> nat \<Rightarrow> ('a, 'w) state
    \<Rightarrow> ('a thrown + 'a jsval) \<times> ('a, 'w) state" where
  "match_result opts this s =
     (if isOk this s then call OkHandler (ok_fn opts) (value_field this s) s
      else call ErrHandler (err_fn opts) (error_field this s) s)"

text \<open>
  \<^verbatim>\<open>unwrapTuple() { if (this.isOk()) return [this.value, undefined];
  return [undefined, this.error]; }\<close>: the two-element array is a pair.
\<close>

definition unwrapTuple :: "nat \<Rightarrow> ('a, 'w) state \<Rightarrow> 'a jsval \<times> 'a jsval" where
  "unwrapTuple this s =
     (if isOk this s then (value_field this s, Undefined)
      else (Undefined, error_field this s))"

text \<open>
  \<^verbatim>\<open>map(fn) { if (this.isOk()) return new Ok(fn(this.value)); return this; }\<close>: a throw
  of \<^verbatim>\<open>fn\<close> leaves \<^verbatim>\<open>map\<close> before \<^verbatim>\<open>new Ok\<close> runs.
\<close>

definition map_result :: "('a, 'w) fn \<Rightarrow> nat \<Rightarrow> ('a, 'w) state
    \<Rightarrow> ('a thrown + nat) \<times> ('a, 'w) state" where
  "map_result fn this s =
     (if isOk this s then
        (case call MapFn fn (value_field this s) s of
           (Inl x, s') \<Rightarrow> (Inl x, s')
         | (Inr u, s') \<Rightarrow> (case alloc (Ok u) s' of (r, s'') \<Rightarrow> (Inr r, s'')))
      else (Inr this, s))"

text \<open>
  \<^verbatim>\<open>unwrapErr() { if (this.isErr()) return this.error;
  throw new ResultError('Called unwrapErr on an Ok value'); }\<close>
\<close>

definition unwrapErr :: "nat \<Rightarrow> ('a, 'w) state \<Rightarrow> 'a thrown + 'a jsval" where
  "unwrapErr this s =
     (if isErr this s then Inr (error_field this s)
      else Inl (ThrowError (ResultError ''Called unwrapErr on an Ok value'')))"

text \<open>
  \<^verbatim>\<open>unwrap() { if (this.isOk()) return this.value;
  throw new ResultError('Called unwrap on an Err value'); }\<close>
\<close>

definition unwrap :: "nat \<Rightarrow> ('a, 'w) state \<Rightarrow> 'a thrown + 'a jsval" where
  "unwrap this s =
     (if isOk this s then Inr (value_field this s)
      else Inl (ThrowError (ResultError ''Called unwrap on an Err value'')))"

text \<open>\<^verbatim>\<open>unwrapOr(fallback) { if (this.isOk()) return this.value; return fallback; }\<close>\<close>

definition unwrapOr :: "'a jsval \<Rightarrow> nat \<Rightarrow> ('a, 'w) state \<Rightarrow> 'a jsval" where
  "unwrapOr fallback this s = (if isOk this s then value_field this s else fallback)"

section \<open>The exported constructors\<close>

text \<open>\<^verbatim>\<open>ok(value) { return new Ok(value); }\<close> and \<^verbatim>\<open>err(error) { return new Err(error); }\<close>\<close>

definition ok :: "'a jsval \<Rightarrow> ('a, 'w) state \<Rightarrow> nat \<times> ('a, 'w) state" where
  "ok v s = alloc (Ok v) s"

definition err :: "'a jsval \<Rightarrow> ('a, 'w) state \<Rightarrow> nat \<times> ('a, 'w) state" where
  "err e s = alloc (Err e) s"

section \<open>Vocabulary of the properties\<close>


text \<open>A pure function as a callback: it returns \<open>f x\<close> and changes nothing.\<close>

definition pure_fn :: "('a jsval \<Rightarrow> 'a jsval) \<Rightarrow> ('a, 'w) fn" where
  "pure_fn f x w = (Inr (f x), w)"

text \<open>
  A callback that counts its calls in the caller's state and returns its argument: the
  caller's state is a counter.
\<close>

definition counting_fn :: "('a, nat) fn" where
  "counting_fn x n = (Inr x, Suc n)"

text \<open>The store before anything has been allocated, over a given state of the caller.\<close>

definition init_state :: "'w \<Rightarrow> ('a, 'w) state" where
  "init_state w = \<lparr>heap = [], world = w, calls = []\<rparr>"

text \<open>
  The store after \<^verbatim>\<open>err(1)\<close> and then \<^verbatim>\<open>ok(2)\<close>: the \<^verbatim>\<open>Err\<close> is reference 0, the
  \<^verbatim>\<open>Ok\<close> is reference 1 and the object allocated last.
\<close>

definition two_results :: "(int, unit) state" where
  "two_results = snd (ok (Defined 2) (snd (err (Defined 1) (init_state ()))))"

section \<open>Reading the store\<close>

lemmas result_defs = ok_def err_def alloc_def deref_def isOk_def isErr_def value_field_def
  error_field_def

lemma deref_alloc: "deref (fst (alloc x s)) (snd (alloc x s)) = Some x"
  by (simp add: deref_def alloc_def)

lemma deref_ok: "deref (fst (ok v s)) (snd (ok v s)) = Some (Ok v)"
  by (simp add: ok_def deref_alloc)

lemma deref_err: "deref (fst (err e s)) (snd (err e s)) = Some (Err e)"
  by (simp add: err_def deref_alloc)

lemma deref_last: "heap s = xs @ [x] \<Longrightarrow> deref (length xs) s = Some x"
  by (simp add: deref_def)

lemma deref_cases:
  "deref r s = Some (Ok v) \<Longrightarrow> isOk r s \<and> \<not> isErr r s \<and> value_field r s = v"
  "deref r s = Some (Err e) \<Longrightarrow> isErr r s \<and> \<not> isOk r s \<and> error_field r s = e"
  by (simp_all add: isOk_def isErr_def value_field_def error_field_def)


lemma new_Ok_last:
  assumes "heap s = xs @ [Ok u]"
  shows "isOk (length xs) s \<and> \<not> isErr (length xs) s \<and> unwrap (length xs) s = Inr u"
  using deref_cases(1)[OF deref_last[OF assms]] by (simp add: unwrap_def)

section \<open>\<^verbatim>\<open>map\<close> on each variant\<close>

lemma map_result_Ok:
  "deref r s = Some (Ok v) \<Longrightarrow>
   map_result fn r s =
     (case fn v (world s) of
        (Inl x, w) \<Rightarrow> (Inl x, s\<lparr>world := w, calls := calls s @ [(MapFn, v)]\<rparr>)
      | (Inr u, w) \<Rightarrow>
          (Inr (length (heap s)),
           s\<lparr>heap := heap s @ [Ok u], world := w, calls := calls s @ [(MapFn, v)]\<rparr>))"
  by (simp add: map_result_def deref_cases call_def alloc_def split: prod.splits sum.splits)

lemma map_result_Err: "deref r s = Some (Err e) \<Longrightarrow> map_result fn r s = (Inr r, s)"
  by (simp add: map_result_def deref_cases)

lemma map_result_pure:
  "deref r s = Some (Ok v) \<Longrightarrow>
   map_result (pure_fn f) r s =
     (Inr (length (heap s)),
      s\<lparr>heap := heap s @ [Ok (f v)], world := world s, calls := calls s @ [(MapFn, v)]\<rparr>)"
  by (simp add: map_result_Ok pure_fn_def)

section \<open>Construction and interrogation\<close>

text \<open>
  C6. For every value \<open>v\<close>, \<^verbatim>\<open>ok(v)\<close> is a Result with \<^verbatim>\<open>isOk()\<close> true and \<^verbatim>\<open>isErr()\<close>
  false; for every error \<open>e\<close>, \<^verbatim>\<open>err(e)\<close> is a Result with \<^verbatim>\<open>isErr()\<close> true and
  \<^verbatim>\<open>isOk()\<close> false. This holds in every store, and also when the payload is
  \<^verbatim>\<open>undefined\<close>.
\<close>

theorem ok_err_tags:
  "(case ok v s of (r, s') \<Rightarrow> isOk r s' \<and> \<not> isErr r s') \<and>
   (case err e s of (r, s') \<Rightarrow> isErr r s' \<and> \<not> isOk r s')"
  by (simp add: result_defs)



section \<open>Extraction\<close>

text \<open>
  C1. On every Result of a store, whenever it was allocated: \<^verbatim>\<open>unwrap\<close> returns the
  payload of an \<^verbatim>\<open>Ok\<close> and throws a \<^verbatim>\<open>ResultError\<close> on an \<^verbatim>\<open>Err\<close>; \<^verbatim>\<open>unwrapErr\<close> returns
  the payload of an \<^verbatim>\<open>Err\<close> and throws a \<^verbatim>\<open>ResultError\<close> on an \<^verbatim>\<open>Ok\<close>. So \<^verbatim>\<open>unwrap\<close>
  throws if and only if the Result is an \<^verbatim>\<open>Err\<close>, and \<^verbatim>\<open>unwrapErr\<close> throws if and only
  if it is an \<^verbatim>\<open>Ok\<close>. The message of the error names the extractor and the variant it
  was called on: \<^verbatim>\<open>Called unwrap on an Err value\<close>,
  \<^verbatim>\<open>Called unwrapErr on an Ok value\<close>. In particular \<^verbatim>\<open>ok(v).unwrap()\<close> returns \<open>v\<close>,
  \<^verbatim>\<open>err(e).unwrapErr()\<close> returns \<open>e\<close>, and \<^verbatim>\<open>err(e).unwrap()\<close> and \<^verbatim>\<open>ok(v).unwrapErr()\<close>
  throw.
\<close>

theorem unwrap_unwrapErr_misuse:
  "deref r s = Some x \<Longrightarrow>
   unwrap r s =
     (case x of
        Ok v' \<Rightarrow> Inr v'
      | Err e' \<Rightarrow>
          Inl (ThrowError
            \<lparr>name = ''ResultError'', message = ''Called unwrap on an Err value''\<rparr>)) \<and>
   unwrapErr r s =
     (case x of
        Ok v' \<Rightarrow>
          Inl (ThrowError
            \<lparr>name = ''ResultError'', message = ''Called unwrapErr on an Ok value''\<rparr>)
      | Err e' \<Rightarrow> Inr e') \<and>
   isl (unwrap r s) = isErr r s \<and>
   isl (unwrapErr r s) = isOk r s \<and>
   (case ok v t of (r', t') \<Rightarrow>
      unwrap r' t' = Inr v \<and>
      unwrapErr r' t' =
        Inl (ThrowError
          \<lparr>name = ''ResultError'', message = ''Called unwrapErr on an Ok value''\<rparr>)) \<and>
   (case err e t of (r', t') \<Rightarrow>
      unwrapErr r' t' = Inr e \<and>
      unwrap r' t' =
        Inl (ThrowError
          \<lparr>name = ''ResultError'', message = ''Called unwrap on an Err value''\<rparr>))"
proof (intro conjI)
  assume d: "deref r s = Some x"
  show "unwrap r s =
     (case x of
        Ok v' \<Rightarrow> Inr v'
      | Err e' \<Rightarrow>
          Inl (ThrowError
            \<lparr>name = ''ResultError'', message = ''Called unwrap on an Err value''\<rparr>))"
    using d
    by (cases x) (simp_all add: unwrap_def deref_cases ResultError_def Error_new_def)
  show "unwrapErr r s =
     (case x of
        Ok v' \<Rightarrow>
          Inl (ThrowError
            \<lparr>name = ''ResultError'', message = ''Called unwrapErr on an Ok value''\<rparr>)
      | Err e' \<Rightarrow> Inr e')"
    using d
    by (cases x) (simp_all add: unwrapErr_def deref_cases ResultError_def Error_new_def)
  show "isl (unwrap r s) = isErr r s"
    using d by (cases x) (simp_all add: unwrap_def deref_cases)
  show "isl (unwrapErr r s) = isOk r s"
    using d by (cases x) (simp_all add: unwrapErr_def deref_cases)
  show "case ok v t of (r', t') \<Rightarrow>
      unwrap r' t' = Inr v \<and>
      unwrapErr r' t' =
        Inl (ThrowError
          \<lparr>name = ''ResultError'', message = ''Called unwrapErr on an Ok value''\<rparr>)"
    using deref_cases(1)[OF deref_ok, of v t]
    by (simp add: case_prod_beta unwrap_def unwrapErr_def ResultError_def Error_new_def)
  show "case err e t of (r', t') \<Rightarrow>
      unwrapErr r' t' = Inr e \<and>
      unwrap r' t' =
        Inl (ThrowError
          \<lparr>name = ''ResultError'', message = ''Called unwrap on an Err value''\<rparr>)"
    using deref_cases(2)[OF deref_err, of e t]
    by (simp add: case_prod_beta unwrap_def unwrapErr_def ResultError_def Error_new_def)
qed

text \<open>
  In the store of \<^verbatim>\<open>err(1)\<close> and \<^verbatim>\<open>ok(2)\<close>, each extractor reads the receiver it is
  called on, not the object allocated last.
\<close>

theorem unwrap_unwrapErr_misuse_witness:
  "deref 0 two_results = Some (Err (Defined 1)) \<and>
   unwrapErr 0 two_results = Inr (Defined 1) \<and>
   unwrap 0 two_results =
     Inl (ThrowError \<lparr>name = ''ResultError'', message = ''Called unwrap on an Err value''\<rparr>) \<and>
   deref 1 two_results = Some (Ok (Defined 2)) \<and>
   unwrap 1 two_results = Inr (Defined 2) \<and>
   unwrapErr 1 two_results =
     Inl (ThrowError \<lparr>name = ''ResultError'', message = ''Called unwrapErr on an Ok value''\<rparr>)"
  using unwrap_unwrapErr_misuse
    [of 0 two_results "Err (Defined 1)" "Defined (1::int)"
      "init_state () :: (int, unit) state" "Defined (2::int)"]
    unwrap_unwrapErr_misuse
    [of 1 two_results "Ok (Defined 2)" "Defined (1::int)"
      "init_state () :: (int, unit) state" "Defined (2::int)"]
  by (simp add: two_results_def result_defs init_state_def unwrap_def unwrapErr_def
      ResultError_def Error_new_def)

text \<open>
  C8. \<^verbatim>\<open>ok(v).unwrapOr(fallback)\<close> returns \<open>v\<close> and \<^verbatim>\<open>err(e).unwrapOr(fallback)\<close> returns
  \<open>fallback\<close>. \<^verbatim>\<open>unwrapOr\<close> has no throwing branch (its result is a plain value), and on
  every Result of a store it returns the payload of an \<^verbatim>\<open>Ok\<close> and the fallback for an
  \<^verbatim>\<open>Err\<close>.
\<close>

theorem unwrapOr_value_or_fallback:
  "deref r s = Some x \<Longrightarrow>
   unwrapOr fallback r s = (case x of Ok v \<Rightarrow> v | Err e \<Rightarrow> fallback) \<and>
   (case ok v t of (r', t') \<Rightarrow> unwrapOr fallback r' t' = v) \<and>
   (case err e t of (r', t') \<Rightarrow> unwrapOr fallback r' t' = fallback)"
  by (cases x) (simp_all add: unwrapOr_def deref_cases, simp_all add: result_defs)

theorem unwrapOr_value_or_fallback_witness:
  "deref 0 (snd (err (Defined 5) (init_state () :: (int, unit) state))) = Some (Err (Defined 5)) \<and>
   unwrapOr (Defined 0) 0 (snd (err (Defined 5) (init_state () :: (int, unit) state))) =
     Defined 0 \<and>
   deref 0 (snd (ok (Defined 1) (init_state () :: (int, unit) state))) = Some (Ok (Defined 1)) \<and>
   unwrapOr (Defined 0) 0 (snd (ok (Defined 1) (init_state () :: (int, unit) state))) =
     Defined 1"
  using unwrapOr_value_or_fallback
    [of 0 "snd (err (Defined 5) (init_state () :: (int, unit) state))" "Err (Defined 5)"
      "Defined 0" "Defined (1::int)"
      "init_state () :: (int, unit) state" "Defined (2::int)"]
    unwrapOr_value_or_fallback
    [of 0 "snd (ok (Defined 1) (init_state () :: (int, unit) state))" "Ok (Defined 1)"
      "Defined 0" "Defined (1::int)"
      "init_state () :: (int, unit) state" "Defined (2::int)"]
  by (simp add: result_defs init_state_def)

section \<open>The error of the library\<close>

text \<open>
  C9. For every message string, \<^verbatim>\<open>new ResultError(message)\<close> has the name
  \<^verbatim>\<open>"ResultError"\<close> and the message it was constructed with.
\<close>

theorem ResultError_name_message:
  "name (ResultError msg) = ''ResultError'' \<and> message (ResultError msg) = msg"
  by (simp add: ResultError_def Error_new_def)

section \<open>An \<^verbatim>\<open>undefined\<close> payload\<close>

text \<open>
  C10. \<^verbatim>\<open>ok(undefined)\<close> is a success: \<^verbatim>\<open>isOk()\<close> is true, and \<^verbatim>\<open>unwrapTuple()\<close> returns
  \<^verbatim>\<open>[undefined, undefined]\<close>, where neither component is a defined value.
\<close>

theorem ok_undefined_unwrapTuple:
  "case ok Undefined s of (r, s') \<Rightarrow>
     isOk r s' \<and> unwrapTuple r s' = (Undefined, Undefined)"
  by (simp add: unwrapTuple_def result_defs)

section \<open>Transformation\<close>

text \<open>
  C2. For every value \<open>v\<close> and every pure function \<open>f\<close>, \<^verbatim>\<open>ok(v).map(f)\<close> is an \<^verbatim>\<open>Ok\<close>
  Result whose \<^verbatim>\<open>unwrap()\<close> is \<open>f v\<close>. On every Result of a store and for every
  callback \<open>fn\<close> (pure or not, returning or throwing), \<^verbatim>\<open>map\<close> calls \<open>fn\<close> exactly once,
  with the payload and before it returns, when the receiver is an \<^verbatim>\<open>Ok\<close>: the record of
  calls grows by that one call and the caller's state is the one \<open>fn\<close> leaves. When the
  receiver is an \<^verbatim>\<open>Err\<close>, \<open>fn\<close> is not called: the record of calls and the caller's
  state are unchanged.
\<close>

theorem map_applies_fn_once:
  "deref r s = Some x \<Longrightarrow>
   (case x of
      Ok v \<Rightarrow>
        calls (snd (map_result fn r s)) = calls s @ [(MapFn, v)] \<and>
        world (snd (map_result fn r s)) = snd (fn v (world s)) \<and>
        (case map_result (pure_fn f) r s of
           (Inr r', s') \<Rightarrow> isOk r' s' \<and> \<not> isErr r' s' \<and> unwrap r' s' = Inr (f v)
         | (Inl e, s') \<Rightarrow> False)
    | Err e \<Rightarrow>
        calls (snd (map_result fn r s)) = calls s \<and>
        world (snd (map_result fn r s)) = world s) \<and>
   (case ok v0 t of (r0, t0) \<Rightarrow>
      (case map_result (pure_fn f) r0 t0 of
         (Inr r', t') \<Rightarrow>
           isOk r' t' \<and> unwrap r' t' = Inr (f v0) \<and> calls t' = calls t @ [(MapFn, v0)]
       | (Inl e, t') \<Rightarrow> False))"
proof (intro conjI)
  assume d: "deref r s = Some x"
  show "case x of
      Ok v \<Rightarrow>
        calls (snd (map_result fn r s)) = calls s @ [(MapFn, v)] \<and>
        world (snd (map_result fn r s)) = snd (fn v (world s)) \<and>
        (case map_result (pure_fn f) r s of
           (Inr r', s') \<Rightarrow> isOk r' s' \<and> \<not> isErr r' s' \<and> unwrap r' s' = Inr (f v)
         | (Inl e, s') \<Rightarrow> False)
    | Err e \<Rightarrow>
        calls (snd (map_result fn r s)) = calls s \<and>
        world (snd (map_result fn r s)) = world s"
  proof (cases x)
    case (Ok v)
    with d have dv: "deref r s = Some (Ok v)" by simp
    have "calls (snd (map_result fn r s)) = calls s @ [(MapFn, v)]"
      and "world (snd (map_result fn r s)) = snd (fn v (world s))"
      by (simp_all add: map_result_Ok[OF dv] split: prod.splits sum.splits)
    then show ?thesis
      using Ok
        new_Ok_last[of "s\<lparr>heap := heap s @ [Ok (f v)], calls := calls s @ [(MapFn, v)]\<rparr>"
          "heap s" "f v"]
      by (simp add: map_result_pure[OF dv])
  next
    case (Err e)
    with d have "deref r s = Some (Err e)" by simp
    then show ?thesis using Err by (simp add: map_result_Err)
  qed
next
  have "map_result (pure_fn f) (fst (ok v0 t)) (snd (ok v0 t)) =
      (Inr (length (heap (snd (ok v0 t)))),
       (snd (ok v0 t))\<lparr>heap := heap (snd (ok v0 t)) @ [Ok (f v0)],
          world := world (snd (ok v0 t)),
          calls := calls (snd (ok v0 t)) @ [(MapFn, v0)]\<rparr>)"
    by (rule map_result_pure[OF deref_ok])
  moreover have "calls (snd (ok v0 t)) = calls t"
    by (simp add: ok_def alloc_def)
  ultimately show "case ok v0 t of (r0, t0) \<Rightarrow>
      (case map_result (pure_fn f) r0 t0 of
         (Inr r', t') \<Rightarrow>
           isOk r' t' \<and> unwrap r' t' = Inr (f v0) \<and> calls t' = calls t @ [(MapFn, v0)]
       | (Inl e, t') \<Rightarrow> False)"
    using new_Ok_last[of "(snd (ok v0 t))\<lparr>heap := heap (snd (ok v0 t)) @ [Ok (f v0)],
          calls := calls t @ [(MapFn, v0)]\<rparr>" "heap (snd (ok v0 t))" "f v0"]
    by (simp add: case_prod_beta)
qed

theorem map_applies_fn_once_witness:
  "deref 0 (snd (ok (Defined 10) (init_state 0 :: (int, nat) state))) = Some (Ok (Defined 10)) \<and>
   calls (snd (map_result counting_fn 0 (snd (ok (Defined 10) (init_state 0 :: (int, nat) state)))))
     = [(MapFn, Defined 10)] \<and>
   world (snd (map_result counting_fn 0 (snd (ok (Defined 10) (init_state 0 :: (int, nat) state)))))
     = 1 \<and>
   deref 0 (snd (err (Defined 4) (init_state 0 :: (int, nat) state))) = Some (Err (Defined 4)) \<and>
   calls (snd (map_result counting_fn 0 (snd (err (Defined 4) (init_state 0 :: (int, nat) state)))))
     = [] \<and>
   world (snd (map_result counting_fn 0 (snd (err (Defined 4) (init_state 0 :: (int, nat) state)))))
     = 0"
  using map_applies_fn_once
    [of 0 "snd (ok (Defined 10) (init_state 0 :: (int, nat) state))" "Ok (Defined 10)"
      counting_fn id "Defined 1" "init_state 0"]
    map_applies_fn_once
    [of 0 "snd (err (Defined 4) (init_state 0 :: (int, nat) state))" "Err (Defined 4)"
      counting_fn id "Defined 1" "init_state 0"]
  by (simp add: result_defs init_state_def counting_fn_def map_result_def call_def)

text \<open>
  C4. For every Result of a store and every pair of handlers, \<^verbatim>\<open>match\<close> makes exactly one
  call: to the \<^verbatim>\<open>ok\<close> handler with the success payload when the Result is an \<^verbatim>\<open>Ok\<close>, to
  the \<^verbatim>\<open>err\<close> handler with the error payload when it is an \<^verbatim>\<open>Err\<close>. The outcome of
  \<^verbatim>\<open>match\<close> is the outcome of that handler, the caller's state is the one that handler
  leaves, and the store of Results is unchanged.
\<close>

theorem match_invokes_one_handler:
  "deref r s = Some x \<Longrightarrow>
   fst (match_result opts r s) =
     (case x of
        Ok v \<Rightarrow> fst (ok_fn opts v (world s))
      | Err e \<Rightarrow> fst (err_fn opts e (world s))) \<and>
   calls (snd (match_result opts r s)) =
     calls s @ [case x of Ok v \<Rightarrow> (OkHandler, v) | Err e \<Rightarrow> (ErrHandler, e)] \<and>
   world (snd (match_result opts r s)) =
     (case x of
        Ok v \<Rightarrow> snd (ok_fn opts v (world s))
      | Err e \<Rightarrow> snd (err_fn opts e (world s))) \<and>
   heap (snd (match_result opts r s)) = heap s"
  by (cases x) (simp_all add: match_result_def deref_cases call_def split: prod.splits)

theorem match_invokes_one_handler_witness:
  "deref 0 (snd (ok (Defined 10) (init_state 0 :: (int, nat) state))) = Some (Ok (Defined 10)) \<and>
   match_result \<lparr>ok_fn = counting_fn, err_fn = pure_fn (\<lambda>e. Undefined)\<rparr> 0
       (snd (ok (Defined 10) (init_state 0 :: (int, nat) state))) =
     (Inr (Defined 10),
      \<lparr>heap = [Ok (Defined 10)], world = 1, calls = [(OkHandler, Defined 10)]\<rparr>) \<and>
   deref 0 (snd (err (Defined 4) (init_state 0 :: (int, nat) state))) = Some (Err (Defined 4)) \<and>
   match_result \<lparr>ok_fn = counting_fn, err_fn = pure_fn (\<lambda>e. Undefined)\<rparr> 0
       (snd (err (Defined 4) (init_state 0 :: (int, nat) state))) =
     (Inr Undefined,
      \<lparr>heap = [Err (Defined 4)], world = 0, calls = [(ErrHandler, Defined 4)]\<rparr>)"
  using match_invokes_one_handler
    [of 0 "snd (ok (Defined 10) (init_state 0 :: (int, nat) state))" "Ok (Defined 10)"
      "\<lparr>ok_fn = counting_fn, err_fn = pure_fn (\<lambda>e. Undefined)\<rparr>"]
    match_invokes_one_handler
    [of 0 "snd (err (Defined 4) (init_state 0 :: (int, nat) state))" "Err (Defined 4)"
      "\<lparr>ok_fn = counting_fn, err_fn = pure_fn (\<lambda>e. Undefined)\<rparr>"]
  by (simp add: result_defs init_state_def counting_fn_def pure_fn_def match_result_def
      call_def)




section \<open>The tuple form\<close>

text \<open>
  C5, as the code has it. On every Result of a store, whenever it was allocated,
  \<^verbatim>\<open>unwrapTuple\<close> returns \<^verbatim>\<open>[value, undefined]\<close> for an \<^verbatim>\<open>Ok\<close> and \<^verbatim>\<open>[undefined, error]\<close>
  for an \<^verbatim>\<open>Err\<close>; in particular \<^verbatim>\<open>ok(v).unwrapTuple()\<close> returns \<^verbatim>\<open>[v, undefined]\<close> and
  \<^verbatim>\<open>err(e).unwrapTuple()\<close> returns \<^verbatim>\<open>[undefined, e]\<close>. At least one component of the
  tuple is \<^verbatim>\<open>undefined\<close> (never both are defined), and exactly one component is defined
  if and only if the payload of the Result is not \<^verbatim>\<open>undefined\<close>.
\<close>

theorem unwrapTuple_components:
  "deref r s = Some x \<Longrightarrow>
   unwrapTuple r s = (case x of Ok v' \<Rightarrow> (v', Undefined) | Err e' \<Rightarrow> (Undefined, e')) \<and>
   (fst (unwrapTuple r s) = Undefined \<or> snd (unwrapTuple r s) = Undefined) \<and>
   ((fst (unwrapTuple r s) \<noteq> Undefined) \<noteq> (snd (unwrapTuple r s) \<noteq> Undefined)) =
     (case x of Ok v' \<Rightarrow> v' \<noteq> Undefined | Err e' \<Rightarrow> e' \<noteq> Undefined) \<and>
   ((fst (unwrapTuple r s) \<noteq> Undefined) \<noteq> (snd (unwrapTuple r s) \<noteq> Undefined)) =
     (if isOk r s then value_field r s \<noteq> Undefined else error_field r s \<noteq> Undefined) \<and>
   (case ok v t of (r', t') \<Rightarrow> unwrapTuple r' t' = (v, Undefined)) \<and>
   (case err e t of (r', t') \<Rightarrow> unwrapTuple r' t' = (Undefined, e))"
proof (intro conjI)
  assume d: "deref r s = Some x"
  show tuple: "unwrapTuple r s =
      (case x of Ok v' \<Rightarrow> (v', Undefined) | Err e' \<Rightarrow> (Undefined, e'))"
    using d by (cases x) (simp_all add: unwrapTuple_def deref_cases)
  show "fst (unwrapTuple r s) = Undefined \<or> snd (unwrapTuple r s) = Undefined"
    unfolding tuple by (cases x) simp_all
  show "((fst (unwrapTuple r s) \<noteq> Undefined) \<noteq> (snd (unwrapTuple r s) \<noteq> Undefined)) =
     (case x of Ok v' \<Rightarrow> v' \<noteq> Undefined | Err e' \<Rightarrow> e' \<noteq> Undefined)"
    unfolding tuple by (cases x) simp_all
  show "((fst (unwrapTuple r s) \<noteq> Undefined) \<noteq> (snd (unwrapTuple r s) \<noteq> Undefined)) =
     (if isOk r s then value_field r s \<noteq> Undefined else error_field r s \<noteq> Undefined)"
    by (simp add: unwrapTuple_def)
  show "case ok v t of (r', t') \<Rightarrow> unwrapTuple r' t' = (v, Undefined)"
    by (simp add: unwrapTuple_def result_defs)
  show "case err e t of (r', t') \<Rightarrow> unwrapTuple r' t' = (Undefined, e)"
    by (simp add: unwrapTuple_def result_defs)
qed

text \<open>
  In the store of \<^verbatim>\<open>err(1)\<close> and \<^verbatim>\<open>ok(2)\<close>, the tuple of each Result has its own payload
  in its own slot.
\<close>

theorem unwrapTuple_components_witness:
  "deref 0 two_results = Some (Err (Defined 1)) \<and>
   unwrapTuple 0 two_results = (Undefined, Defined 1) \<and>
   deref 1 two_results = Some (Ok (Defined 2)) \<and>
   unwrapTuple 1 two_results = (Defined 2, Undefined)"
  using unwrapTuple_components
    [of 0 two_results "Err (Defined 1)" "Defined (1::int)"
      "init_state () :: (int, unit) state" "Defined (2::int)"]
    unwrapTuple_components
    [of 1 two_results "Ok (Defined 2)" "Defined (1::int)"
      "init_state () :: (int, unit) state" "Defined (2::int)"]
  by (simp add: two_results_def result_defs init_state_def unwrapTuple_def)

text \<open>
  \<^verbatim>\<open>ok(undefined).unwrapTuple()\<close> in the empty store: it is not the case that exactly one
  component is defined.
\<close>

theorem unwrapTuple_ok_undefined_none_defined:
  "\<not> ((fst (unwrapTuple (fst (ok Undefined (init_state () :: (int, unit) state)))
           (snd (ok Undefined (init_state () :: (int, unit) state)))) \<noteq> Undefined) \<noteq>
       (snd (unwrapTuple (fst (ok Undefined (init_state () :: (int, unit) state)))
           (snd (ok Undefined (init_state () :: (int, unit) state)))) \<noteq> Undefined))"
  by (simp add: unwrapTuple_def result_defs init_state_def)

end
